theory Spec2Isabelle
  imports Main
begin

section \<open>Python text and values\<close>

text \<open>
  A Python \<open>str\<close> is modelled as a \<open>string\<close> whose characters are the code points
  0..255 (one \<open>char\<close> per code point). The helpers below follow the built-in string
  methods the service calls: \<open>str.strip\<close>, \<open>str.lower\<close>, \<open>str.split\<close>,
  \<open>str.replace\<close> and \<open>str.join\<close>.
\<close>

definition py_isspace :: "char \<Rightarrow> bool" where
  "py_isspace c = (c \<in> set [CHR 0x09, CHR 0x0A, CHR 0x0B, CHR 0x0C, CHR 0x0D,
                              CHR 0x1C, CHR 0x1D, CHR 0x1E, CHR 0x1F, CHR 0x20,
                              CHR 0x85, CHR 0xA0])"

definition py_strip :: "string \<Rightarrow> string" where
  "py_strip s = rev (dropWhile py_isspace (rev (dropWhile py_isspace s)))"

definition py_lower_char :: "char \<Rightarrow> char" where
  "py_lower_char c =
     (let n = (of_char c :: nat)
      in if (65 \<le> n \<and> n \<le> 90) \<or> (192 \<le> n \<and> n \<le> 214) \<or> (216 \<le> n \<and> n \<le> 222)
         then char_of (n + 32) else c)"

definition py_lower :: "string \<Rightarrow> string" where
  "py_lower s = map py_lower_char s"

fun py_join :: "string \<Rightarrow> string list \<Rightarrow> string" where
  "py_join sep [] = []"
| "py_join sep [x] = x"
| "py_join sep (x # y # ys) = x @ sep @ py_join sep (y # ys)"

text \<open>\<open>s.split()\<close>: the maximal runs of non-whitespace, in order.\<close>

fun split_acc :: "string \<Rightarrow> string \<Rightarrow> string list" where
  "split_acc cur [] = (if cur = [] then [] else [rev cur])"
| "split_acc cur (c # cs) =
     (if py_isspace c
      then (if cur = [] then split_acc [] cs else rev cur # split_acc [] cs)
      else split_acc (c # cur) cs)"

definition py_split :: "string \<Rightarrow> string list" where
  "py_split s = split_acc [] s"

text \<open>
  \<open>strip_prefix p s\<close> is the rest of \<open>s\<close> after the prefix \<open>p\<close>, when \<open>s\<close> starts
  with \<open>p\<close>; \<open>find_sub p s\<close> splits \<open>s\<close> around the first occurrence of \<open>p\<close>.
\<close>

fun strip_prefix :: "string \<Rightarrow> string \<Rightarrow> string option" where
  "strip_prefix [] s = Some s"
| "strip_prefix (p # ps) [] = None"
| "strip_prefix (p # ps) (c # cs) = (if p = c then strip_prefix ps cs else None)"

fun find_sub :: "string \<Rightarrow> string \<Rightarrow> (string \<times> string) option" where
  "find_sub p [] = (if p = [] then Some ([], []) else None)"
| "find_sub p (c # cs) =
     (case strip_prefix p (c # cs) of
        Some rest \<Rightarrow> Some ([], rest)
      | None \<Rightarrow> (case find_sub p cs of
                   None \<Rightarrow> None
                 | Some (before, after) \<Rightarrow> Some (c # before, after)))"

text \<open>\<open>s.replace(p, "")\<close> for a non-empty \<open>p\<close>: the occurrences of \<open>p\<close>, found from
  left to right without overlap, are deleted.\<close>

function remove_all :: "string \<Rightarrow> string \<Rightarrow> string" where
  "remove_all p [] = []"
| "remove_all p (c # cs) =
     (if p = [] then c # cs
      else (case strip_prefix p (c # cs) of
              Some rest \<Rightarrow> remove_all p rest
            | None \<Rightarrow> c # remove_all p cs))"
  by pat_completeness auto

lemma strip_prefix_length:
  "strip_prefix p s = Some rest \<Longrightarrow> length rest + length p = length s"
  by (induction p s rule: strip_prefix.induct) (auto split: if_splits)

termination remove_all
proof (relation "measure (\<lambda>(p, s). length s)")
  show "wf (measure (\<lambda>(p, s). length s))" by simp
next
  fix p :: string and c :: char and cs rest :: string
  assume "p \<noteq> []" and "strip_prefix p (c # cs) = Some rest"
  then have "length rest < length (c # cs)"
    using strip_prefix_length [of p "c # cs" rest] by (cases p) auto
  then show "((p, rest), (p, c # cs)) \<in> measure (\<lambda>(p, s). length s)" by simp
next
  fix p :: string and c :: char and cs :: string
  show "((p, cs), (p, c # cs)) \<in> measure (\<lambda>(p, s). length s)" by simp
qed

subsection \<open>Values\<close>

text \<open>
  The values \<open>json.loads\<close> builds: \<open>None\<close>, \<open>bool\<close>, \<open>int\<close>, \<open>float\<close>, \<open>str\<close>,
  \<open>list\<close> and \<open>dict\<close> with string keys (an association list in insertion order, keys
  distinct). A \<open>float\<close> is carried as the numeral text Python builds it from: no
  floating-point arithmetic is modelled, \<open>str\<close> of a float is that text, and a float
  is zero when its mantissa has only zero digits (underflow of tiny literals is not
  modelled).
\<close>

datatype json =
    JNull
  | JBool bool
  | JInt int
  | JFloat string
  | JStr string
  | JList "json list"
  | JDict "(string \<times> json) list"

definition is_digit :: "char \<Rightarrow> bool" where
  "is_digit c = (c \<in> set ''0123456789'')"

definition float_is_zero :: "string \<Rightarrow> bool" where
  "float_is_zero l =
     (let m = takeWhile (\<lambda>c. c \<noteq> CHR ''e'' \<and> c \<noteq> CHR ''E'') l
      in CHR ''0'' \<in> set m \<and> filter (\<lambda>c. c \<in> set ''123456789'') m = [])"

text \<open>Python truth value testing, as used by \<open>or\<close>, \<open>not\<close> and \<open>if\<close>.\<close>

fun truthy :: "json \<Rightarrow> bool" where
  "truthy JNull = False"
| "truthy (JBool b) = b"
| "truthy (JInt i) = (i \<noteq> 0)"
| "truthy (JFloat l) = (\<not> float_is_zero l)"
| "truthy (JStr s) = (s \<noteq> [])"
| "truthy (JList xs) = (xs \<noteq> [])"
| "truthy (JDict kvs) = (kvs \<noteq> [])"

text \<open>\<open>d.get(k)\<close>: the value, or \<open>None\<close>.\<close>

definition dict_get :: "(string \<times> json) list \<Rightarrow> string \<Rightarrow> json" where
  "dict_get d k = (case map_of d k of None \<Rightarrow> JNull | Some v \<Rightarrow> v)"

text \<open>\<open>d[k] = v\<close>: an existing key keeps its place, a new key goes last.\<close>

fun dict_set :: "string \<Rightarrow> json \<Rightarrow> (string \<times> json) list \<Rightarrow> (string \<times> json) list" where
  "dict_set k v [] = [(k, v)]"
| "dict_set k v ((k', v') # rest) =
     (if k' = k then (k, v) # rest else (k', v') # dict_set k v rest)"

subsection \<open>\<open>str\<close> and \<open>repr\<close>\<close>

definition digit_char :: "nat \<Rightarrow> char" where
  "digit_char n = char_of (48 + n)"

fun str_nat :: "nat \<Rightarrow> string" where
  "str_nat n = (if n < 10 then [digit_char n] else str_nat (n div 10) @ [digit_char (n mod 10)])"

declare str_nat.simps [simp del]

definition str_int :: "int \<Rightarrow> string" where
  "str_int i = (if i < 0 then CHR ''-'' # str_nat (nat (- i)) else str_nat (nat i))"

definition hex_char :: "nat \<Rightarrow> char" where
  "hex_char n = (if n < 10 then char_of (48 + n) else char_of (87 + n))"

definition py_printable :: "char \<Rightarrow> bool" where
  "py_printable c =
     (let n = (of_char c :: nat)
      in (32 \<le> n \<and> n \<le> 126) \<or> (161 \<le> n \<and> n \<noteq> 173))"

definition repr_char :: "char \<Rightarrow> char \<Rightarrow> string" where
  "repr_char q c =
     (if c = CHR 0x5C then [CHR 0x5C, CHR 0x5C]
      else if c = q then [CHR 0x5C, q]
      else if c = CHR 0x09 then [CHR 0x5C, CHR ''t'']
      else if c = CHR 0x0A then [CHR 0x5C, CHR ''n'']
      else if c = CHR 0x0D then [CHR 0x5C, CHR ''r'']
      else if py_printable c then [c]
      else [CHR 0x5C, CHR ''x'', hex_char (of_char c div 16), hex_char (of_char c mod 16)])"

definition repr_str :: "string \<Rightarrow> string" where
  "repr_str s =
     (let q = (if CHR 0x27 \<in> set s \<and> CHR 0x22 \<notin> set s then CHR 0x22 else CHR 0x27)
      in [q] @ concat (map (repr_char q) s) @ [q])"

fun py_repr :: "json \<Rightarrow> string" where
  "py_repr JNull = ''None''"
| "py_repr (JBool b) = (if b then ''True'' else ''False'')"
| "py_repr (JInt i) = str_int i"
| "py_repr (JFloat l) = l"
| "py_repr (JStr s) = repr_str s"
| "py_repr (JList xs) = ''['' @ py_join '', '' (map py_repr xs) @ '']''"
| "py_repr (JDict kvs) =
     ''{'' @ py_join '', '' (map (\<lambda>(k, v). repr_str k @ '': '' @ py_repr v) kvs) @ ''}''"

definition py_str :: "json \<Rightarrow> string" where
  "py_str v = (case v of JStr s \<Rightarrow> s | _ \<Rightarrow> py_repr v)"

section \<open>Inventory filter\<close>

text \<open>An inventory item is a plain name or a dict \<open>{name, quantity?, unit?}\<close>.\<close>

datatype inventory_item = Plain string | Structured "(string \<times> json) list"

definition RESTRICTED :: "(string \<times> string set) list" where
  "RESTRICTED =
     [(''vegetarian'', set [''beef'', ''pork'', ''chicken'', ''turkey'', ''fish'', ''shrimp'',
                            ''lamb'', ''bacon'']),
      (''vegan'', set [''beef'', ''pork'', ''chicken'', ''turkey'', ''fish'', ''shrimp'', ''lamb'',
                       ''milk'', ''cheese'', ''butter'', ''yogurt'', ''cream'', ''egg'', ''honey'']),
      (''gluten free'', set [''wheat'', ''barley'', ''rye'', ''bread'', ''pasta'', ''flour'',
                             ''spaghetti'', ''noodles'', ''bulgur'', ''couscous'', ''semolina''])]"

definition MAX_ATTEMPTS :: nat where
  "MAX_ATTEMPTS = 4"

definition restricted_get :: "string \<Rightarrow> string set" where
  "restricted_get d = (case map_of RESTRICTED d of None \<Rightarrow> {} | Some s \<Rightarrow> s)"

text \<open>The loop \<open>for d in dietary: banned |= RESTRICTED.get(d.lower(), set())\<close>.\<close>

fun banned_names :: "string list \<Rightarrow> string set \<Rightarrow> string set" where
  "banned_names [] banned = banned"
| "banned_names (d # ds) banned = banned_names ds (banned \<union> restricted_get (py_lower d))"

fun get_name :: "inventory_item \<Rightarrow> string" where
  "get_name (Plain s) = s"
| "get_name (Structured d) =
     py_lower (py_str (case map_of d ''name'' of None \<Rightarrow> JStr [] | Some v \<Rightarrow> v))"

definition filter_inventory :: "inventory_item list \<Rightarrow> string list \<Rightarrow> inventory_item list" where
  "filter_inventory inventory dietary =
     (let banned = banned_names dietary {}
      in filter (\<lambda>item. get_name item \<notin> banned) inventory)"

section \<open>\<open>json.loads\<close>\<close>

text \<open>
  The decoder of the standard library, as the service calls it (\<open>json.loads(text)\<close>,
  strict mode): a value, surrounded by optional JSON whitespace, and nothing else. It is
  library code; the model follows its scanner. An escape \<open>\uXXXX\<close> that denotes a code
  point above 255 is outside the alphabet of the model and is rejected there; the limits
  of the interpreter (recursion depth, the cap on the digits of an integer) are not
  modelled. \<open>None\<close> stands for the exception the decoder raises.
\<close>

definition json_ws :: "char \<Rightarrow> bool" where
  "json_ws c = (c \<in> set [CHR '' '', CHR 0x09, CHR 0x0A, CHR 0x0D])"

definition skip_ws :: "string \<Rightarrow> string" where
  "skip_ws s = dropWhile json_ws s"

definition hex_val :: "char \<Rightarrow> nat option" where
  "hex_val c =
     (let n = (of_char c :: nat)
      in if 48 \<le> n \<and> n \<le> 57 then Some (n - 48)
         else if 97 \<le> n \<and> n \<le> 102 then Some (n - 87)
         else if 65 \<le> n \<and> n \<le> 70 then Some (n - 55)
         else None)"

definition hex4 :: "char \<Rightarrow> char \<Rightarrow> char \<Rightarrow> char \<Rightarrow> nat option" where
  "hex4 a b c d =
     (case (hex_val a, hex_val b, hex_val c, hex_val d) of
        (Some w, Some x, Some y, Some z) \<Rightarrow> Some (((w * 16 + x) * 16 + y) * 16 + z)
      | _ \<Rightarrow> None)"

definition unescape :: "char \<Rightarrow> char option" where
  "unescape e =
     (if e = CHR 0x22 then Some (CHR 0x22)
      else if e = CHR 0x5C then Some (CHR 0x5C)
      else if e = CHR ''/'' then Some (CHR ''/'')
      else if e = CHR ''b'' then Some (CHR 0x08)
      else if e = CHR ''f'' then Some (CHR 0x0C)
      else if e = CHR ''n'' then Some (CHR 0x0A)
      else if e = CHR ''r'' then Some (CHR 0x0D)
      else if e = CHR ''t'' then Some (CHR 0x09)
      else None)"

definition cons_result :: "char \<Rightarrow> (string \<times> string) option \<Rightarrow> (string \<times> string) option" where
  "cons_result c r = (case r of None \<Rightarrow> None | Some (s, rest) \<Rightarrow> Some (c # s, rest))"

text \<open>The body of a string literal, after its opening quote: the text and what follows
  the closing quote.\<close>

fun scan_string :: "string \<Rightarrow> (string \<times> string) option" where
  "scan_string [] = None"
| "scan_string (c # cs) =
     (if c = CHR 0x22 then Some ([], cs)
      else if c = CHR 0x5C then
        (case cs of
           [] \<Rightarrow> None
         | e # es \<Rightarrow>
             (if e = CHR ''u'' then
                (case es of
                   h1 # h2 # h3 # h4 # rest \<Rightarrow>
                     (case hex4 h1 h2 h3 h4 of
                        None \<Rightarrow> None
                      | Some n \<Rightarrow>
                          (if n < 256 then cons_result (char_of n) (scan_string rest) else None))
                 | _ \<Rightarrow> None)
              else (case unescape e of
                      None \<Rightarrow> None
                    | Some ch \<Rightarrow> cons_result ch (scan_string es))))
      else if (of_char c :: nat) < 32 then None
      else cons_result c (scan_string cs))"

text \<open>A number, by the decoder's pattern
  \<open>(-?(?:0|[1-9][0-9]*))(\.[0-9]+)?([eE][-+]?[0-9]+)?\<close>: an \<open>int\<close> when there is
  neither fraction nor exponent, a \<open>float\<close> otherwise.\<close>

definition digit_val :: "char \<Rightarrow> nat" where
  "digit_val c = of_char c - 48"

definition nat_of_digits :: "string \<Rightarrow> nat" where
  "nat_of_digits ds = foldl (\<lambda>a c. 10 * a + digit_val c) 0 ds"

definition scan_int_part :: "string \<Rightarrow> (string \<times> string) option" where
  "scan_int_part s =
     (case s of
        [] \<Rightarrow> None
      | d # ds \<Rightarrow>
          (if \<not> is_digit d then None
           else if d = CHR ''0'' then Some ([d], ds)
           else Some (d # takeWhile is_digit ds, dropWhile is_digit ds)))"

definition scan_frac :: "string \<Rightarrow> string \<times> string" where
  "scan_frac s =
     (case s of
        p # f # fs \<Rightarrow>
          (if p = CHR ''.'' \<and> is_digit f
           then (p # f # takeWhile is_digit fs, dropWhile is_digit fs)
           else ([], s))
      | _ \<Rightarrow> ([], s))"

definition scan_exp :: "string \<Rightarrow> string \<times> string" where
  "scan_exp s =
     (case s of
        e # x # r \<Rightarrow>
          (if e \<noteq> CHR ''e'' \<and> e \<noteq> CHR ''E'' then ([], s)
           else if is_digit x then (e # x # takeWhile is_digit r, dropWhile is_digit r)
           else if x = CHR ''+'' \<or> x = CHR ''-'' then
             (case r of
                d # r' \<Rightarrow>
                  (if is_digit d
                   then (e # x # d # takeWhile is_digit r', dropWhile is_digit r')
                   else ([], s))
              | [] \<Rightarrow> ([], s))
           else ([], s))
      | _ \<Rightarrow> ([], s))"

definition scan_number :: "string \<Rightarrow> (json \<times> string) option" where
  "scan_number s =
     (let neg = (case s of [] \<Rightarrow> False | c # _ \<Rightarrow> c = CHR ''-'');
          s1 = (if neg then tl s else s)
      in case scan_int_part s1 of
           None \<Rightarrow> None
         | Some (ip, s2) \<Rightarrow>
             (let (fp, s3) = scan_frac s2;
                  (ep, s4) = scan_exp s3
              in if fp = [] \<and> ep = []
                 then Some (JInt (if neg then - int (nat_of_digits ip) else int (nat_of_digits ip)), s4)
                 else Some (JFloat ((if neg then ''-'' else []) @ ip @ fp @ ep), s4)))"

text \<open>The literals the scanner knows besides numbers.\<close>

definition scan_literal :: "string \<Rightarrow> (json \<times> string) option" where
  "scan_literal s =
     (case strip_prefix ''null'' s of
        Some r \<Rightarrow> Some (JNull, r)
      | None \<Rightarrow>
     (case strip_prefix ''true'' s of
        Some r \<Rightarrow> Some (JBool True, r)
      | None \<Rightarrow>
     (case strip_prefix ''false'' s of
        Some r \<Rightarrow> Some (JBool False, r)
      | None \<Rightarrow>
     (case scan_number s of
        Some vr \<Rightarrow> Some vr
      | None \<Rightarrow>
     (case strip_prefix ''NaN'' s of
        Some r \<Rightarrow> Some (JFloat ''NaN'', r)
      | None \<Rightarrow>
     (case strip_prefix ''Infinity'' s of
        Some r \<Rightarrow> Some (JFloat ''Infinity'', r)
      | None \<Rightarrow>
     (case strip_prefix ''-Infinity'' s of
        Some r \<Rightarrow> Some (JFloat ''-Infinity'', r)
      | None \<Rightarrow> None)))))))"

text \<open>\<open>dict(pairs)\<close>: a repeated key keeps its first place and takes the last value.\<close>

definition make_dict :: "(string \<times> json) list \<Rightarrow> (string \<times> json) list" where
  "make_dict pairs = foldl (\<lambda>d (k, v). dict_set k v d) [] pairs"

lemma cons_result_length:
  "cons_result c r = Some (s, rest) \<Longrightarrow> \<exists>s'. r = Some (s', rest)"
  by (auto simp: cons_result_def split: option.splits)

lemma scan_string_length:
  "scan_string s = Some (k, r) \<Longrightarrow> length r < length s"
proof (induction s arbitrary: k r rule: scan_string.induct)
  case 1
  then show ?case by simp
next
  case (2 c cs)
  then show ?case
    by (fastforce split: if_splits list.splits option.splits dest!: cons_result_length)
qed

lemma skip_ws_length: "length (skip_ws s) \<le> length s"
  by (simp add: skip_ws_def length_dropWhile_le)

lemma skip_ws_Cons_length: "skip_ws s = d # r \<Longrightarrow> length r < length s"
  using skip_ws_length [of s] by simp

text \<open>
  The scanner proper: a value, the elements of an array from the first one on, and the
  members of an object from the quote of the first key on. The tests
  \<open>length r < length s\<close> always succeed (a value is never empty); they make the
  recursion visibly well-founded.
\<close>

function parse_value :: "string \<Rightarrow> (json \<times> string) option"
  and parse_elems :: "string \<Rightarrow> (json list \<times> string) option"
  and parse_members :: "string \<Rightarrow> ((string \<times> json) list \<times> string) option"
where
  "parse_value s =
     (case s of
        [] \<Rightarrow> None
      | c # cs \<Rightarrow>
          (if c = CHR 0x22 then
             (case scan_string cs of None \<Rightarrow> None | Some (str, r) \<Rightarrow> Some (JStr str, r))
           else if c = CHR ''{'' then
             (case skip_ws cs of
                [] \<Rightarrow> None
              | d # r \<Rightarrow>
                  (if d = CHR ''}'' then Some (JDict [], r)
                   else (case parse_members (skip_ws cs) of
                           None \<Rightarrow> None
                         | Some (pairs, r') \<Rightarrow> Some (JDict (make_dict pairs), r'))))
           else if c = CHR ''['' then
             (case skip_ws cs of
                [] \<Rightarrow> None
              | d # r \<Rightarrow>
                  (if d = CHR '']'' then Some (JList [], r)
                   else (case parse_elems (skip_ws cs) of
                           None \<Rightarrow> None
                         | Some (vs, r') \<Rightarrow> Some (JList vs, r'))))
           else scan_literal s))"
| "parse_elems s =
     (case parse_value s of
        None \<Rightarrow> None
      | Some (v, r) \<Rightarrow>
          (if length r < length s then
             (case skip_ws r of
                [] \<Rightarrow> None
              | d # r' \<Rightarrow>
                  (if d = CHR '']'' then Some ([v], r')
                   else if d = CHR '','' then
                     (case parse_elems (skip_ws r') of
                        None \<Rightarrow> None
                      | Some (vs, r'') \<Rightarrow> Some (v # vs, r''))
                   else None))
           else None))"
| "parse_members s =
     (case s of
        [] \<Rightarrow> None
      | q # cs \<Rightarrow>
          (if q \<noteq> CHR 0x22 then None
           else (case scan_string cs of
                   None \<Rightarrow> None
                 | Some (k, r) \<Rightarrow>
                     (case skip_ws r of
                        [] \<Rightarrow> None
                      | colon # r1 \<Rightarrow>
                          (if colon \<noteq> CHR '':'' then None
                           else (case parse_value (skip_ws r1) of
                                   None \<Rightarrow> None
                                 | Some (v, r2) \<Rightarrow>
                                     (if length r2 < length s then
                                        (case skip_ws r2 of
                                           [] \<Rightarrow> None
                                         | d # r3 \<Rightarrow>
                                             (if d = CHR ''}'' then Some ([(k, v)], r3)
                                              else if d = CHR '','' then
                                                (case parse_members (skip_ws r3) of
                                                   None \<Rightarrow> None
                                                 | Some (pairs, r4) \<Rightarrow> Some ((k, v) # pairs, r4))
                                              else None))
                                      else None)))))))"
  by pat_completeness auto

termination parse_value
  apply (relation "measure (\<lambda>x. case x of Inl s \<Rightarrow> 2 * length s
                                | Inr (Inl s) \<Rightarrow> 2 * length s + 1
                                | Inr (Inr s) \<Rightarrow> 2 * length s + 1)")
        apply simp
  subgoal for s c cs d r using skip_ws_length [of cs] by simp
  subgoal for s c cs d r using skip_ws_length [of cs] by simp
  subgoal by simp
  subgoal for s x v r d r' using skip_ws_Cons_length [of r d r'] skip_ws_length [of r'] by simp
  subgoal for s q cs x k r colon r1
    using scan_string_length [of cs k r] skip_ws_Cons_length [of r colon r1] skip_ws_length [of r1] by simp
  subgoal for s q cs x k r colon r1 y v r2 d r3
    using skip_ws_Cons_length [of r2 d r3] skip_ws_length [of r3] by simp
  done

definition json_loads :: "string \<Rightarrow> json option" where
  "json_loads s =
     (case parse_value (skip_ws s) of
        None \<Rightarrow> None
      | Some (v, r) \<Rightarrow> (if skip_ws r = [] then Some v else None))"

declare parse_value.simps [simp del] parse_elems.simps [simp del] parse_members.simps [simp del]

section \<open>JSON extraction\<close>

text \<open>\<open>re.sub(r"//.*", "", text)\<close>: from each \<open>//\<close> to the end of its line (the
  newline stays).\<close>

fun strip_line_comments :: "bool \<Rightarrow> string \<Rightarrow> string" where
  "strip_line_comments in_comment [] = []"
| "strip_line_comments True (c # cs) =
     (if c = CHR 0x0A then c # strip_line_comments False cs
      else strip_line_comments True cs)"
| "strip_line_comments False [c] = [c]"
| "strip_line_comments False (c # d # cs) =
     (if c = CHR ''/'' \<and> d = CHR ''/'' then strip_line_comments True cs
      else c # strip_line_comments False (d # cs))"

lemma find_sub_length:
  "find_sub p s = Some (before, after) \<Longrightarrow> length before + length p + length after = length s"
proof (induction p s arbitrary: before after rule: find_sub.induct)
  case (1 p)
  then show ?case by (simp split: if_splits)
next
  case (2 p c cs)
  then show ?case
    by (auto split: option.splits dest: strip_prefix_length)
qed

text \<open>\<open>re.sub(r"/\*.*?\*/", "", text, flags=re.S)\<close>: each \<open>/*\<close> with the nearest
  \<open>*/\<close> after it, and what lies between; an unclosed \<open>/*\<close> stays.\<close>

function strip_block_comments :: "string \<Rightarrow> string" where
  "strip_block_comments [] = []"
| "strip_block_comments (c # cs) =
     (case strip_prefix ''/*'' (c # cs) of
        None \<Rightarrow> c # strip_block_comments cs
      | Some rest \<Rightarrow>
          (case find_sub ''*/'' rest of
             None \<Rightarrow> c # strip_block_comments cs
           | Some (body, after) \<Rightarrow> strip_block_comments after))"
  by pat_completeness auto

termination strip_block_comments
proof (relation "measure length")
  show "wf (measure length)" by simp
next
  fix c :: char and cs :: string
  show "(cs, c # cs) \<in> measure length" by simp
next
  fix c :: char and cs :: string
  show "(cs, c # cs) \<in> measure length" by simp
next
  fix c :: char and cs rest body after :: string and x :: "string \<times> string"
  assume "strip_prefix ''/*'' (c # cs) = Some rest" "find_sub ''*/'' rest = Some x"
    "(body, after) = x"
  then have "length after < length (c # cs)"
    using strip_prefix_length [of "''/*''" "c # cs" rest] find_sub_length [of "''*/''" rest body after]
    by simp
  then show "(after, c # cs) \<in> measure length" by simp
qed

definition remove_json_comments :: "string \<Rightarrow> string" where
  "remove_json_comments text =
     py_strip (strip_block_comments (strip_line_comments False text))"

text \<open>The loop of \<open>_balanced_json_snippet\<close> from the first \<open>{\<close> on: the text up to
  and including the \<open>}\<close> that brings the depth back to zero.\<close>

fun scan_balanced :: "int \<Rightarrow> string \<Rightarrow> string option" where
  "scan_balanced depth [] = None"
| "scan_balanced depth (ch # rest) =
     (if ch = CHR ''{'' then map_option ((#) ch) (scan_balanced (depth + 1) rest)
      else if ch = CHR ''}'' then
        (if depth - 1 = 0 then Some [ch]
         else map_option ((#) ch) (scan_balanced (depth - 1) rest))
      else map_option ((#) ch) (scan_balanced depth rest))"

definition balanced_json_snippet :: "string \<Rightarrow> string option" where
  "balanced_json_snippet text =
     (let from_start = dropWhile (\<lambda>c. c \<noteq> CHR ''{'') text
      in if from_start = [] then None else scan_balanced 0 from_start)"

text \<open>\<open>_try_parse_json_candidate\<close> returns what \<open>json.loads\<close> returns, or \<open>None\<close>
  when it raises. A parsed \<open>null\<close> is Python's \<open>None\<close> too, which every caller
  reads as no result.\<close>

definition try_parse_json_candidate :: "string \<Rightarrow> json option" where
  "try_parse_json_candidate candidate =
     (let candidate = py_strip candidate
      in if candidate = [] then None
         else (case json_loads (remove_json_comments candidate) of
                 None \<Rightarrow> None
               | Some v \<Rightarrow> (if v = JNull then None else Some v)))"

text \<open>\<open>re.finditer(r"```json([\s\S]*?)```", text)\<close>: the bodies of the fenced blocks,
  in order of appearance.\<close>

function fenced_blocks :: "string \<Rightarrow> string list" where
  "fenced_blocks [] = []"
| "fenced_blocks (c # cs) =
     (case strip_prefix ''```json'' (c # cs) of
        None \<Rightarrow> fenced_blocks cs
      | Some rest \<Rightarrow>
          (case find_sub ''```'' rest of
             None \<Rightarrow> fenced_blocks cs
           | Some (body, after) \<Rightarrow> body # fenced_blocks after))"
  by pat_completeness auto

termination fenced_blocks
proof (relation "measure length")
  show "wf (measure length)" by simp
next
  fix c :: char and cs :: string
  show "(cs, c # cs) \<in> measure length" by simp
next
  fix c :: char and cs :: string
  show "(cs, c # cs) \<in> measure length" by simp
next
  fix c :: char and cs rest body after :: string and x :: "string \<times> string"
  assume "strip_prefix ''```json'' (c # cs) = Some rest" "find_sub ''```'' rest = Some x"
    "(body, after) = x"
  then have "length after < length (c # cs)"
    using strip_prefix_length [of "''```json''" "c # cs" rest]
      find_sub_length [of "''```''" rest body after]
    by simp
  then show "(after, c # cs) \<in> measure length" by simp
qed

fun first_parsed :: "string list \<Rightarrow> json option" where
  "first_parsed [] = None"
| "first_parsed (candidate # rest) =
     (case try_parse_json_candidate candidate of
        Some parsed \<Rightarrow> Some parsed
      | None \<Rightarrow> first_parsed rest)"

definition extract_json :: "string \<Rightarrow> json option" where
  "extract_json text =
     (if text = [] then None
      else
        (let raw = py_strip (remove_all ''```'' (remove_all ''```json'' text))
         in case try_parse_json_candidate raw of
              Some parsed \<Rightarrow> Some parsed
            | None \<Rightarrow>
                (case (case balanced_json_snippet raw of
                         None \<Rightarrow> None
                       | Some snippet \<Rightarrow>
                           (if snippet = [] then None else try_parse_json_candidate snippet)) of
                   Some parsed \<Rightarrow> Some parsed
                 | None \<Rightarrow> first_parsed (fenced_blocks text))))"

section \<open>Recipe normalization\<close>

text \<open>\<open>float(s)\<close> succeeds on an optional sign followed by \<open>inf\<close>, \<open>infinity\<close>,
  \<open>nan\<close> (in any letter case) or a decimal numeral with optional fraction and
  exponent, whose digit groups may hold single underscores between digits.\<close>

fun digitpart :: "string \<Rightarrow> bool" where
  "digitpart [] = False"
| "digitpart [c] = is_digit c"
| "digitpart (c # d # r) =
     (is_digit c \<and> (if d = CHR ''_'' then digitpart r else digitpart (d # r)))"

definition drop_sign :: "string \<Rightarrow> string" where
  "drop_sign s = (case s of [] \<Rightarrow> [] | c # cs \<Rightarrow> if c = CHR ''+'' \<or> c = CHR ''-'' then cs else s)"

definition float_number :: "string \<Rightarrow> bool" where
  "float_number u =
     (let is_e = (\<lambda>c. c = CHR ''e'' \<or> c = CHR ''E'');
          m = takeWhile (\<lambda>c. \<not> is_e c) u;
          ex = dropWhile (\<lambda>c. \<not> is_e c) u;
          ip = takeWhile (\<lambda>c. c \<noteq> CHR ''.'') m;
          dot = dropWhile (\<lambda>c. c \<noteq> CHR ''.'') m
      in (if dot = [] then digitpart ip
          else (ip = [] \<and> digitpart (tl dot)) \<or> (digitpart ip \<and> (tl dot = [] \<or> digitpart (tl dot))))
         \<and> (ex = [] \<or> digitpart (drop_sign (tl ex))))"

definition is_number :: "string \<Rightarrow> bool" where
  "is_number s =
     (let u = drop_sign (py_strip s)
      in py_lower u \<in> set [''inf'', ''infinity'', ''nan''] \<or> float_number u)"

definition ingredient_entry :: "string \<Rightarrow> json \<Rightarrow> json" where
  "ingredient_entry name raw_qty =
     (case raw_qty of
        JStr q \<Rightarrow>
          (let parts = py_split q
           in if 2 \<le> length parts \<and> is_number (parts ! 0)
              then JDict [(''name'', JStr name), (''quantity'', JFloat (parts ! 0)),
                          (''unit'', JStr (parts ! 1))]
              else JDict [(''name'', JStr name), (''quantity'', raw_qty)])
      | _ \<Rightarrow> JDict [(''name'', JStr name), (''quantity'', raw_qty)])"

fun normalize_ingredients_structure :: "json \<Rightarrow> json list" where
  "normalize_ingredients_structure (JList entries) = entries"
| "normalize_ingredients_structure (JDict kvs) =
     map (\<lambda>(name, raw_qty). ingredient_entry name raw_qty) kvs"
| "normalize_ingredients_structure other = []"

text \<open>\<open>a or b\<close>.\<close>

definition py_or :: "json \<Rightarrow> json \<Rightarrow> json" where
  "py_or a b = (if truthy a then a else b)"

text \<open>The body of the loop over \<open>parsed["recipes"]\<close>, for an entry that is a dict.\<close>

definition resolve_title :: "(string \<times> json) list \<Rightarrow> json" where
  "resolve_title r =
     py_or (dict_get r ''title'')
       (py_or (dict_get r ''name'')
          (py_or (dict_get r ''recipe_name'') (JStr ''Untitled recipe'')))"

definition resolve_instructions :: "(string \<times> json) list \<Rightarrow> string list" where
  "resolve_instructions r =
     (let instructions_raw =
            py_or (dict_get r ''instructions'') (py_or (dict_get r ''steps'') (JList []))
      in case instructions_raw of
           JStr text \<Rightarrow> [text]
         | JList steps \<Rightarrow> map py_str steps
         | other \<Rightarrow> [py_str other])"

definition normalize_recipe :: "(string \<times> json) list \<Rightarrow> json" where
  "normalize_recipe r =
     (let title = resolve_title r;
          ingredients_raw = (case map_of r ''ingredients'' of None \<Rightarrow> JList [] | Some v \<Rightarrow> v);
          ingredients_norm = normalize_ingredients_structure ingredients_raw;
          instructions = resolve_instructions r
      in JDict (dict_set ''instructions'' (JList (map JStr instructions))
                 (dict_set ''ingredients'' (JList ingredients_norm)
                    (dict_set ''title'' title r))))"

fun normalize_recipes :: "json list \<Rightarrow> json list" where
  "normalize_recipes [] = []"
| "normalize_recipes (JDict r # rest) = normalize_recipe r # normalize_recipes rest"
| "normalize_recipes (other # rest) = normalize_recipes rest"

text \<open>The two shape tests on the parsed value. \<open>k in parsed\<close> and \<open>parsed[k]\<close> are
  defined for a dict; on a string \<open>in\<close> is the substring test, on a list the
  membership test, and every other use raises.\<close>

datatype py_exn = TypeError | KeyError

definition py_in :: "string \<Rightarrow> json \<Rightarrow> py_exn + bool" where
  "py_in k container =
     (case container of
        JDict d \<Rightarrow> Inr (k \<in> set (map fst d))
      | JStr text \<Rightarrow> Inr (find_sub k text \<noteq> None)
      | JList xs \<Rightarrow> Inr (JStr k \<in> set xs)
      | _ \<Rightarrow> Inl TypeError)"

definition py_getitem :: "json \<Rightarrow> string \<Rightarrow> py_exn + json" where
  "py_getitem container k =
     (case container of
        JDict d \<Rightarrow> (case map_of d k of None \<Rightarrow> Inl KeyError | Some v \<Rightarrow> Inr v)
      | _ \<Rightarrow> Inl TypeError)"

definition is_dict :: "json \<Rightarrow> bool" where
  "is_dict v = (case v of JDict _ \<Rightarrow> True | _ \<Rightarrow> False)"

definition is_list :: "json \<Rightarrow> bool" where
  "is_list v = (case v of JList _ \<Rightarrow> True | _ \<Rightarrow> False)"

definition unwrap_recipe :: "json \<Rightarrow> py_exn + json" where
  "unwrap_recipe parsed =
     (case py_in ''recipe'' parsed of
        Inl e \<Rightarrow> Inl e
      | Inr present \<Rightarrow>
          (if \<not> present then Inr parsed
           else (case py_getitem parsed ''recipe'' of
                   Inl e \<Rightarrow> Inl e
                 | Inr v \<Rightarrow>
                     (if is_dict v then Inr (JDict [(''recipes'', JList [v])])
                      else Inr parsed))))"

definition wrap_single :: "json \<Rightarrow> py_exn + json" where
  "wrap_single parsed =
     (case py_in ''recipes'' parsed of
        Inl e \<Rightarrow> Inl e
      | Inr present \<Rightarrow>
          (if \<not> present then Inr (JDict [(''recipes'', JList [parsed])])
           else (case py_getitem parsed ''recipes'' of
                   Inl e \<Rightarrow> Inl e
                 | Inr v \<Rightarrow>
                     (if \<not> is_list v then Inr (JDict [(''recipes'', JList [parsed])])
                      else Inr parsed))))"

text \<open>The list \<open>parsed["recipes"]\<close> the loop runs over, after both shape tests.\<close>

definition recipes_of :: "json \<Rightarrow> py_exn + json list" where
  "recipes_of parsed =
     (case unwrap_recipe parsed of
        Inl e \<Rightarrow> Inl e
      | Inr p1 \<Rightarrow>
          (case wrap_single p1 of
             Inl e \<Rightarrow> Inl e
           | Inr p2 \<Rightarrow>
               (case py_getitem p2 ''recipes'' of
                  Inl e \<Rightarrow> Inl e
                | Inr (JList rs) \<Rightarrow> Inr rs
                | Inr other \<Rightarrow> Inl TypeError)))"

text \<open>The normalizing part of the loop body: both shape tests, then the loop over the
  recipes.\<close>

definition normalize_parsed :: "json \<Rightarrow> py_exn + json list" where
  "normalize_parsed parsed =
     (case recipes_of parsed of
        Inl e \<Rightarrow> Inl e
      | Inr rs \<Rightarrow> Inr (normalize_recipes rs))"


text \<open>\<open>xs[:n]\<close>.\<close>

definition py_take :: "int \<Rightarrow> 'a list \<Rightarrow> 'a list" where
  "py_take n xs = (if 0 \<le> n then take (nat n) xs else take (length xs - nat (- n)) xs)"

section \<open>The completion service and the retry loop\<close>

text \<open>
  The completion service is outside the program: a call either raises, with a message,
  or returns the text of the first choice. Its answers may depend on anything, so the
  model takes them as a function of the position of the call in the run (the first call
  is number 0) and the theorems hold for every such function. The prompts only feed the
  service and are not modelled; building them does not fail on inputs of the declared
  types. An answer without content behaves as the empty text does: nothing is extracted
  from either. The state of a run is the log of the calls made so far, each tagged with
  the attempt that made it (the tag is bookkeeping of the model). The pauses between
  attempts (\<open>time.sleep\<close>) change nothing the program reads and are left out.
\<close>

datatype response = Failure string | Content string

datatype call = Primary nat | Repair nat

type_synonym client = "nat \<Rightarrow> response"

datatype gen_result =
    Error_result (error: string) (recipes: "json list")
  | Success (user_id: int) (recipes: "json list")

record user_prefs =
  prefs_dietary :: "string list"
  prefs_allergies :: "string list"

text \<open>\<open>_repair_json_via_groq\<close>: one more call; whatever goes wrong in it gives
  \<open>None\<close>.\<close>

definition repair_json_via_groq ::
  "client \<Rightarrow> nat \<Rightarrow> string \<Rightarrow> call list \<Rightarrow> json option \<times> call list" where
  "repair_json_via_groq cl attempt raw_text log =
     (case cl (length log) of
        Failure e \<Rightarrow> (None, log @ [Repair attempt])
      | Content fixed_raw \<Rightarrow> (extract_json fixed_raw, log @ [Repair attempt]))"

text \<open>How one pass through the loop body ends: \<open>continue\<close> with the error it
  recorded, or \<open>return\<close> (an exception that leaves the function is \<open>Inl\<close>).\<close>

datatype step = Continue string | Return "py_exn + gen_result"

text \<open>The three places that record an error end alike:
  \<open>if attempt < MAX_ATTEMPTS: sleep; continue\<close>, else
  \<open>return {"error": last_error, "recipes": []}\<close>.\<close>

definition retry_or_return :: "nat \<Rightarrow> string \<Rightarrow> step" where
  "retry_or_return attempt last_error =
     (if attempt < MAX_ATTEMPTS then Continue last_error
      else Return (Inr (Error_result last_error [])))"

definition attempt_body ::
  "client \<Rightarrow> (json list \<Rightarrow> int \<Rightarrow> json list) \<Rightarrow> int \<Rightarrow> int \<Rightarrow> nat \<Rightarrow> call list
     \<Rightarrow> step \<times> call list" where
  "attempt_body cl normalize_ingredient_units uid num_recipes attempt log =
     (case cl (length log) of
        Failure e \<Rightarrow>
          (retry_or_return attempt (''Groq API error ('' @ e @ '')''), log @ [Primary attempt])
      | Content raw_content \<Rightarrow>
          (let log1 = log @ [Primary attempt];
               (parsed, log2) =
                  (case extract_json raw_content of
                     Some p \<Rightarrow> (Some p, log1)
                   | None \<Rightarrow> repair_json_via_groq cl attempt raw_content log1)
           in case parsed of
                None \<Rightarrow> (retry_or_return attempt ''Invalid JSON returned from Groq'', log2)
              | Some p \<Rightarrow>
                  (case normalize_parsed p of
                     Inl e \<Rightarrow> (Return (Inl e), log2)
                   | Inr normalized_input_recipes \<Rightarrow>
                       (if normalized_input_recipes = []
                        then (retry_or_return attempt ''No valid recipes returned'', log2)
                        else (Return (Inr (Success uid
                                (normalize_ingredient_units
                                   (py_take num_recipes normalized_input_recipes) uid))),
                              log2)))))"

text \<open>\<open>for attempt in range(1, MAX_ATTEMPTS + 1)\<close>, and the statement after the
  loop.\<close>

fun attempt_loop ::
  "client \<Rightarrow> (json list \<Rightarrow> int \<Rightarrow> json list) \<Rightarrow> int \<Rightarrow> int \<Rightarrow> nat list \<Rightarrow> string
     \<Rightarrow> call list \<Rightarrow> (py_exn + gen_result) \<times> call list" where
  "attempt_loop cl nu uid num_recipes [] last_error log =
     (Inr (Error_result (''Groq failed after '' @ str_nat MAX_ATTEMPTS @ '' attempts: ''
                          @ last_error) []), log)"
| "attempt_loop cl nu uid num_recipes (attempt # rest) last_error log =
     (case attempt_body cl nu uid num_recipes attempt log of
        (Continue e, log') \<Rightarrow> attempt_loop cl nu uid num_recipes rest e log'
      | (Return r, log') \<Rightarrow> (r, log'))"

text \<open>
  The entry point, with the result and the log of the calls it made. The unit
  normalizer of the repository is a collaborator outside this file and is a parameter;
  the spice and rating lookups only feed the prompt, and all three are taken to return.
  \<open>user_message\<close>, \<open>prev_recipe\<close> and the allergies reach the prompt alone.
\<close>

definition suggest_recipes_from_groq ::
  "client \<Rightarrow> (json list \<Rightarrow> int \<Rightarrow> json list) \<Rightarrow> int \<Rightarrow> inventory_item list \<Rightarrow> string
     \<Rightarrow> user_prefs \<Rightarrow> (string \<times> json) list option \<Rightarrow> int
     \<Rightarrow> (py_exn + gen_result) \<times> call list" where
  "suggest_recipes_from_groq cl normalize_ingredient_units uid ingredients user_message
       prefs prev_recipe num_recipes =
     (let dietary = map (\<lambda>d. py_lower (py_strip d)) (prefs_dietary prefs);
          safe_inv = filter_inventory ingredients dietary
      in if safe_inv = []
         then (Inr (Error_result ''No safe ingredients available.'' []), [])
         else attempt_loop cl normalize_ingredient_units uid num_recipes
                [1 ..< MAX_ATTEMPTS + 1] [] [])"

text \<open>A primary call needs a repair call when its answer is text from which no JSON
  can be extracted. The attempt a logged call belongs to.\<close>

definition needs_repair :: "client \<Rightarrow> nat \<Rightarrow> bool" where
  "needs_repair cl n = (case cl n of Failure e \<Rightarrow> False | Content raw \<Rightarrow> extract_json raw = None)"

fun call_attempt :: "call \<Rightarrow> nat" where
  "call_attempt (Primary a) = a"
| "call_attempt (Repair a) = a"

section \<open>Properties of the inventory filter\<close>

lemma banned_names_acc: "b \<subseteq> banned_names ds b"
proof (induction ds arbitrary: b)
  case Nil
  then show ?case by simp
next
  case (Cons d ds)
  have "b \<subseteq> b \<union> restricted_get (py_lower d)" by blast
  also have "\<dots> \<subseteq> banned_names ds (b \<union> restricted_get (py_lower d))" by (rule Cons.IH)
  finally show ?case by simp
qed

lemma banned_names_member:
  "d \<in> set ds \<Longrightarrow> restricted_get (py_lower d) \<subseteq> banned_names ds b"
proof (induction ds arbitrary: b)
  case Nil
  then show ?case by simp
next
  case (Cons x ds)
  show ?case
  proof (cases "d = x")
    case True
    have "restricted_get (py_lower x) \<subseteq> b \<union> restricted_get (py_lower x)" by blast
    also have "\<dots> \<subseteq> banned_names ds (b \<union> restricted_get (py_lower x))"
      by (rule banned_names_acc)
    finally show ?thesis using True by simp
  next
    case False
    with Cons.prems have "d \<in> set ds" by simp
    then show ?thesis using Cons.IH by simp
  qed
qed

text \<open>
  C5 (the filter lets no item through whose lowercased name is banned). The code
  lowercases the name of a structured item and leaves a plain string as it is, so a plain
  name written with a capital passes: with the tag \<open>vegetarian\<close>, the plain item
  \<open>Chicken\<close> stays, while the structured item of the same name goes, and the
  lowercased name \<open>chicken\<close> is in the banned set.
\<close>

theorem plain_name_not_lowercased:
  "filter_inventory [Plain ''Chicken'', Structured [(''name'', JStr ''Chicken'')]] [''vegetarian'']
     = [Plain ''Chicken'']
   \<and> py_lower ''Chicken'' \<in> banned_names [''vegetarian''] {}"
  by code_simp

text \<open>
  C6, as stated, fails: the table of the code spells the tag \<open>gluten free\<close>, with a
  space, and the tag \<open>gluten-free\<close> bans nothing.
\<close>

theorem gluten_hyphen_tag_counterexample:
  "filter_inventory [Plain ''wheat'', Structured [(''name'', JStr ''flour'')]] [''gluten-free'']
     = [Plain ''wheat'', Structured [(''name'', JStr ''flour'')]]
   \<and> ''wheat'' \<in> restricted_get ''gluten free'' \<and> ''flour'' \<in> restricted_get ''gluten free''"
  by code_simp

text \<open>
  C6, amended: when a dietary tag reads \<open>gluten free\<close> once lowercased, no item whose
  name, as the filter resolves it, is in the gluten set of the table is in the output.
\<close>

theorem gluten_free_items_removed:
  assumes "d \<in> set dietary" and "py_lower d = ''gluten free''"
    and "get_name item \<in> restricted_get ''gluten free''"
  shows "item \<notin> set (filter_inventory inventory dietary)
       \<and> restricted_get ''gluten free''
           = set [''wheat'', ''barley'', ''rye'', ''bread'', ''pasta'', ''flour'', ''spaghetti'',
                  ''noodles'', ''bulgur'', ''couscous'', ''semolina'']"
proof -
  have "restricted_get ''gluten free'' \<subseteq> banned_names dietary {}"
    using banned_names_member [OF assms(1), of "{}"] assms(2) by simp
  with assms(3) have "get_name item \<in> banned_names dietary {}" by blast
  then have "item \<notin> set (filter_inventory inventory dietary)"
    by (simp add: filter_inventory_def)
  moreover have "restricted_get ''gluten free''
           = set [''wheat'', ''barley'', ''rye'', ''bread'', ''pasta'', ''flour'', ''spaghetti'',
                  ''noodles'', ''bulgur'', ''couscous'', ''semolina'']"
    by (simp add: restricted_get_def RESTRICTED_def)
  ultimately show ?thesis by simp
qed

theorem gluten_free_items_removed_witness:
  "''Gluten Free'' \<in> set [''keto'', ''Gluten Free''] \<and> py_lower ''Gluten Free'' = ''gluten free''
   \<and> get_name (Structured [(''name'', JStr ''Wheat''), (''quantity'', JInt 2)]) \<in> restricted_get ''gluten free''
   \<and> Structured [(''name'', JStr ''Wheat''), (''quantity'', JInt 2)]
      \<notin> set (filter_inventory [Plain ''rice'', Structured [(''name'', JStr ''Wheat''), (''quantity'', JInt 2)]] [''keto'', ''Gluten Free''])
   \<and> filter_inventory [Plain ''rice'', Structured [(''name'', JStr ''Wheat''), (''quantity'', JInt 2)]] [''keto'', ''Gluten Free''] = [Plain ''rice'']"
proof -
  have a: "''Gluten Free'' \<in> set [''keto'', ''Gluten Free'']" by simp
  have b: "py_lower ''Gluten Free'' = ''gluten free''" by code_simp
  have c: "get_name (Structured [(''name'', JStr ''Wheat''), (''quantity'', JInt 2)]) \<in> restricted_get ''gluten free''"
    by code_simp
  have d: "filter_inventory [Plain ''rice'', Structured [(''name'', JStr ''Wheat''), (''quantity'', JInt 2)]] [''keto'', ''Gluten Free''] = [Plain ''rice'']"
    by code_simp
  show ?thesis
    using gluten_free_items_removed [OF a b c, of "[Plain ''rice'', Structured [(''name'', JStr ''Wheat''), (''quantity'', JInt 2)]]"] a b c d
    by blast
qed

section \<open>Properties of the normalizer\<close>


















section \<open>Properties of the entry point\<close>

text \<open>
  C8: when the filter leaves no item, the entry point returns the error
  \<open>No safe ingredients available.\<close> with no recipes, and the log of calls to the
  completion service is empty.
\<close>

theorem no_safe_ingredients_short_circuit:
  assumes "filter_inventory ingredients (map (\<lambda>d. py_lower (py_strip d)) (prefs_dietary prefs)) = []"
  shows "suggest_recipes_from_groq cl nu uid ingredients user_message prefs prev_recipe num_recipes
           = (Inr (Error_result ''No safe ingredients available.'' []), [])"
  using assms by (simp add: suggest_recipes_from_groq_def)

theorem no_safe_ingredients_short_circuit_witness:
  "filter_inventory [Plain ''chicken'', Structured [(''name'', JStr ''Bacon'')]]
      (map (\<lambda>d. py_lower (py_strip d)) (prefs_dietary \<lparr>prefs_dietary = ['' Vegetarian ''], prefs_allergies = []\<rparr>)) = []
   \<and> suggest_recipes_from_groq (\<lambda>n. Content ''{}'') (\<lambda>rs u. rs) 1 [Plain ''chicken'', Structured [(''name'', JStr ''Bacon'')]] ''dinner''
        \<lparr>prefs_dietary = ['' Vegetarian ''], prefs_allergies = []\<rparr> None 3
      = (Inr (Error_result ''No safe ingredients available.'' []), [])"
proof -
  have a: "filter_inventory [Plain ''chicken'', Structured [(''name'', JStr ''Bacon'')]]
      (map (\<lambda>d. py_lower (py_strip d)) (prefs_dietary \<lparr>prefs_dietary = ['' Vegetarian ''], prefs_allergies = []\<rparr>)) = []"
    by code_simp
  show ?thesis using no_safe_ingredients_short_circuit [OF a] a by blast
qed

subsection \<open>One pass through the loop body\<close>

lemma attempt_body_log:
  assumes "attempt_body cl nu uid n a log = (st, log')"
  shows "log' = (if needs_repair cl (length log) then log @ [Primary a, Repair a]
                 else log @ [Primary a])"
  using assms
  by (auto simp: attempt_body_def repair_json_via_groq_def needs_repair_def Let_def
           split: response.splits option.splits sum.splits if_splits)






subsection \<open>The retry bound\<close>




subsection \<open>The error of an exhausted budget\<close>





subsection \<open>The number and order of the calls\<close>

lemma snoc_split:
  assumes "xs @ [y] = pre @ z # post"
  shows "(post = [] \<and> pre = xs \<and> z = y) \<or> (\<exists>post'. post = post' @ [y] \<and> xs = pre @ z # post')"
proof (cases post rule: rev_cases)
  case Nil
  with assms show ?thesis by simp
next
  case (snoc post' w)
  with assms have "xs @ [y] = (pre @ z # post') @ [w]" by simp
  then have "xs = pre @ z # post'" and "y = w" by simp_all
  with snoc show ?thesis by simp
qed

lemma repair_ok_snoc_primary:
  assumes inv: "\<And>pre x post. log = pre @ Repair x # post \<Longrightarrow>
                  \<exists>pre'. pre = pre' @ [Primary x] \<and> needs_repair cl (length pre')"
    and eq: "log @ [Primary a] = pre @ Repair x # post"
  shows "\<exists>pre'. pre = pre' @ [Primary x] \<and> needs_repair cl (length pre')"
proof -
  from snoc_split [OF eq] obtain post' where "log = pre @ Repair x # post'" by auto
  then show ?thesis by (rule inv)
qed

lemma repair_ok_snoc_repair:
  assumes inv: "\<And>pre x post. log = pre @ Repair x # post \<Longrightarrow>
                  \<exists>pre'. pre = pre' @ [Primary x] \<and> needs_repair cl (length pre')"
    and rep: "needs_repair cl (length log)"
    and eq: "log @ [Primary a, Repair a] = pre @ Repair x # post"
  shows "\<exists>pre'. pre = pre' @ [Primary x] \<and> needs_repair cl (length pre')"
proof -
  from eq have "(log @ [Primary a]) @ [Repair a] = pre @ Repair x # post" by simp
  from snoc_split [OF this] show ?thesis
  proof
    assume "post = [] \<and> pre = log @ [Primary a] \<and> Repair x = Repair a"
    with rep show ?thesis by simp
  next
    assume "\<exists>post'. post = post' @ [Repair a] \<and> log @ [Primary a] = pre @ Repair x # post'"
    then obtain post' where "log @ [Primary a] = pre @ Repair x # post'" by blast
    with repair_ok_snoc_primary [of log cl a pre x post'] inv show ?thesis by blast
  qed
qed

lemma attempt_body_repair_ok:
  assumes body: "attempt_body cl nu uid n a log = (st, log1)"
    and inv: "\<And>pre x post. log = pre @ Repair x # post \<Longrightarrow>
                  \<exists>pre'. pre = pre' @ [Primary x] \<and> needs_repair cl (length pre')"
    and eq: "log1 = pre @ Repair x # post"
  shows "\<exists>pre'. pre = pre' @ [Primary x] \<and> needs_repair cl (length pre')"
proof (cases "needs_repair cl (length log)")
  case True
  with attempt_body_log [OF body] eq have "log @ [Primary a, Repair a] = pre @ Repair x # post"
    by simp
  with repair_ok_snoc_repair [of log cl a pre x post] inv True show ?thesis by blast
next
  case False
  with attempt_body_log [OF body] eq have "log @ [Primary a] = pre @ Repair x # post" by simp
  with repair_ok_snoc_primary [of log cl a pre x post] inv show ?thesis by blast
qed

lemma attempt_loop_repair_ok:
  assumes "attempt_loop cl nu uid n attempts last_error log = (res, log')"
    and "\<And>pre x post. log = pre @ Repair x # post \<Longrightarrow>
                  \<exists>pre'. pre = pre' @ [Primary x] \<and> needs_repair cl (length pre')"
    and "log' = pre @ Repair x # post"
  shows "\<exists>pre'. pre = pre' @ [Primary x] \<and> needs_repair cl (length pre')"
  using assms
proof (induction attempts arbitrary: last_error log)
  case Nil
  then show ?case by simp
next
  case (Cons a rest)
  obtain st log1 where body: "attempt_body cl nu uid n a log = (st, log1)"
    by (cases "attempt_body cl nu uid n a log")
  have inv1: "\<exists>pre'. p = pre' @ [Primary y] \<and> needs_repair cl (length pre')"
    if "log1 = p @ Repair y # q" for p y q
    using attempt_body_repair_ok [of cl nu uid n a log st log1 p y q] body Cons.prems(2) that
    by blast
  show ?case
  proof (cases st)
    case (Continue e)
    with body Cons.prems(1)
    have "attempt_loop cl nu uid n rest e log1 = (res, log')" by simp
    with Cons.IH [of e log1] inv1 Cons.prems(3) show ?thesis by blast
  next
    case (Return r)
    with body Cons.prems(1) have "log' = log1" by simp
    with Cons.prems(3) show ?thesis using inv1 by simp
  qed
qed

lemma attempt_loop_length:
  assumes "attempt_loop cl nu uid n attempts last_error log = (res, log')"
  shows "length log' \<le> length log + 2 * length attempts"
  using assms
proof (induction attempts arbitrary: last_error log)
  case Nil
  then show ?case by simp
next
  case (Cons a rest)
  obtain st log1 where body: "attempt_body cl nu uid n a log = (st, log1)"
    by (cases "attempt_body cl nu uid n a log")
  have len1: "length log1 \<le> length log + 2"
    using attempt_body_log [OF body] by simp
  show ?case
  proof (cases st)
    case (Continue e)
    with body Cons.prems
    have "attempt_loop cl nu uid n rest e log1 = (res, log')" by simp
    from Cons.IH [OF this] len1 show ?thesis by simp
  next
    case (Return r)
    with body Cons.prems have "log' = log1" by simp
    with len1 show ?thesis by simp
  qed
qed

lemma attempt_loop_count:
  assumes "attempt_loop cl nu uid n attempts last_error log = (res, log')"
  shows "count_list log' c \<le> count_list log c + count_list attempts (call_attempt c)"
  using assms
proof (induction attempts arbitrary: last_error log)
  case Nil
  then show ?case by simp
next
  case (Cons a rest)
  obtain st log1 where body: "attempt_body cl nu uid n a log = (st, log1)"
    by (cases "attempt_body cl nu uid n a log")
  have c1: "count_list log1 c \<le> count_list log c + (if call_attempt c = a then 1 else 0)"
    using attempt_body_log [OF body] by (cases c) auto
  show ?case
  proof (cases st)
    case (Continue e)
    with body Cons.prems
    have "attempt_loop cl nu uid n rest e log1 = (res, log')" by simp
    from Cons.IH [OF this] c1 show ?thesis by auto
  next
    case (Return r)
    with body Cons.prems have "log' = log1" by simp
    with c1 show ?thesis by auto
  qed
qed

text \<open>
  C10: a run makes at most \<open>2 * MAX_ATTEMPTS\<close> calls; for every attempt the log
  holds at most one primary call and at most one repair call; and a repair call comes
  right after the primary call of the same attempt, whose answer was text that failed
  extraction. (A call's number is the length of the log before it.)
\<close>

theorem completion_calls_bounded:
  assumes "suggest_recipes_from_groq cl nu uid ingredients user_message prefs prev_recipe num_recipes
             = (res, log)"
  shows "length log \<le> 2 * MAX_ATTEMPTS
       \<and> (\<forall>a. count_list log (Primary a) \<le> 1 \<and> count_list log (Repair a) \<le> 1)
       \<and> (\<forall>pre a post. log = pre @ Repair a # post \<longrightarrow>
            (\<exists>pre'. pre = pre' @ [Primary a] \<and> needs_repair cl (length pre')))"
proof (cases "filter_inventory ingredients (map (\<lambda>d. py_lower (py_strip d)) (prefs_dietary prefs)) = []")
  case True
  with assms have "log = []" by (simp add: suggest_recipes_from_groq_def)
  then show ?thesis by simp
next
  case False
  have range: "[1 ..< MAX_ATTEMPTS + 1] = [1, 2, 3, 4]"
    by (simp add: MAX_ATTEMPTS_def upt_rec)
  from False assms range
  have loop: "attempt_loop cl nu uid num_recipes [1, 2, 3, 4] [] [] = (res, log)"
    by (simp add: suggest_recipes_from_groq_def Let_def)
  have len: "length log \<le> 2 * MAX_ATTEMPTS"
    using attempt_loop_length [OF loop] by (simp add: MAX_ATTEMPTS_def)
  have cnt: "count_list log c \<le> 1" for c
  proof -
    have "count_list [1, 2, 3, 4] (call_attempt c) \<le> (1::nat)" by simp
    with attempt_loop_count [OF loop, of c] show ?thesis by simp
  qed
  have rep: "\<exists>pre'. pre = pre' @ [Primary a] \<and> needs_repair cl (length pre')"
    if "log = pre @ Repair a # post" for pre a post
    using attempt_loop_repair_ok [of cl nu uid num_recipes "[1, 2, 3, 4]" "[]" "[]" res log pre a post]
      loop that by simp
  from len cnt rep show ?thesis by blast
qed

theorem completion_calls_bounded_witness:
  "suggest_recipes_from_groq
       (\<lambda>n. if n = 0 then Failure ''timeout'' else if n < 3 then Content ''oops''
             else Content ''{\"title\": \"X\"}'')
       (\<lambda>rs u. rs) 7 [Plain ''rice''] ''dinner'' \<lparr>prefs_dietary = [], prefs_allergies = []\<rparr> None 3
     = (Inr (Success 7 [JDict [(''title'', JStr ''X''), (''ingredients'', JList []),
                               (''instructions'', JList [])]]),
        [Primary 1, Primary 2, Repair 2, Primary 3])
   \<and> length [Primary 1, Primary 2, Repair 2, Primary 3] \<le> 2 * MAX_ATTEMPTS
   \<and> count_list [Primary 1, Primary 2, Repair 2, Primary 3] (Primary 2) \<le> 1
   \<and> count_list [Primary 1, Primary 2, Repair 2, Primary 3] (Repair 2) \<le> 1
   \<and> (\<exists>pre'. [Primary 1, Primary 2] = pre' @ [Primary 2]
         \<and> needs_repair (\<lambda>n. if n = 0 then Failure ''timeout'' else if n < 3 then Content ''oops''
                              else Content ''{\"title\": \"X\"}'') (length pre'))"
proof -
  have a: "suggest_recipes_from_groq
       (\<lambda>n. if n = 0 then Failure ''timeout'' else if n < 3 then Content ''oops''
             else Content ''{\"title\": \"X\"}'')
       (\<lambda>rs u. rs) 7 [Plain ''rice''] ''dinner'' \<lparr>prefs_dietary = [], prefs_allergies = []\<rparr> None 3
     = (Inr (Success 7 [JDict [(''title'', JStr ''X''), (''ingredients'', JList []),
                               (''instructions'', JList [])]]),
        [Primary 1, Primary 2, Repair 2, Primary 3])"
    by code_simp
  note th = completion_calls_bounded [OF a]
  from th have b: "length [Primary 1, Primary 2, Repair 2, Primary 3] \<le> 2 * MAX_ATTEMPTS"
    by (rule conjunct1)
  from th have c: "count_list [Primary 1, Primary 2, Repair 2, Primary 3] (Primary 2) \<le> 1"
    "count_list [Primary 1, Primary 2, Repair 2, Primary 3] (Repair 2) \<le> 1"
    by blast+
  have split: "[Primary 1, Primary 2, Repair 2, Primary 3] = [Primary 1, Primary 2] @ Repair 2 # [Primary 3]"
    by simp
  from th split have d: "\<exists>pre'. [Primary 1, Primary 2] = pre' @ [Primary 2]
         \<and> needs_repair (\<lambda>n. if n = 0 then Failure ''timeout'' else if n < 3 then Content ''oops''
                              else Content ''{\"title\": \"X\"}'') (length pre')"
    by blast
  from a b c d show ?thesis by blast
qed

section \<open>Properties of the JSON extractor\<close>














end
